theory Spec2Isabelle
  imports Complex_Main "HOL-Library.Multiset"
begin

section \<open>Shared types (shared/types.ts)\<close>

text \<open>
  JavaScript numbers are modelled exactly: counters as \<open>nat\<close>, millisecond timestamps and
  the risk score as \<open>int\<close>, fractional quantities (averages, confidences, probabilities)
  as \<open>rat\<close>. Strings are lists of code units below 256. Calls to \<open>Date.now()\<close> and
  \<open>Math.random()\<close> are arguments of the function that makes them.
\<close>

datatype Platform = GITHUB | LINKEDIN | GMAIL | UNKNOWN

datatype PhishingType =
  CREDENTIAL_HARVEST | OAUTH_GRANT | MFA_BYPASS | SESSION_HIJACK | CLIPBOARD_HIJACK | FILE_DOWNLOAD

datatype EventType =
  SIMULATION_SHOWN | LINK_CLICKED | FORM_FOCUSED | CREDENTIAL_ENTERED
  | SIMULATION_DETECTED | SIMULATION_IGNORED | REPORTED_PHISHING

datatype Difficulty = Easy | Medium | Hard | Expert

datatype Urgency = UrgLow | UrgMedium | UrgHigh | UrgCritical

datatype Severity = SevLow | SevMedium | SevHigh

record DifficultyProgression =
  currentLevel :: Difficulty
  successRate :: rat
  consecutiveSuccesses :: nat
  consecutiveFailures :: nat

record UserStats =
  userId :: string
  simulationsSeen :: nat
  simulationsClicked :: nat
  credentialsEntered :: nat
  simulationsDetected :: nat
  averageDetectionTime :: rat
  difficultyProgression :: DifficultyProgression
  riskScore :: int
  lastUpdated :: int

text \<open>
  A \<open>SimulationEvent\<close> as the tracker reads it: \<open>shownAt\<close> is \<open>event.metadata?.shownAt\<close>,
  absent (\<open>None\<close>) when the event has no metadata or no such entry.
\<close>

record SimulationEvent =
  eventId :: string
  simulationId :: string
  eventType :: EventType
  eventTimestamp :: int
  eventUrl :: string
  shownAt :: "int option"

section \<open>Strings\<close>

fun digit_char :: "nat \<Rightarrow> char" where
  "digit_char n = char_of (48 + n)"

fun show_nat :: "nat \<Rightarrow> string" where
  "show_nat n = (if n < 10 then [digit_char n] else show_nat (n div 10) @ [digit_char (n mod 10)])"

definition show_int :: "int \<Rightarrow> string" where
  "show_int i = (if i < 0 then CHR ''-'' # show_nat (nat (- i)) else show_nat (nat i))"

text \<open>\<open>s.substr(start, len)\<close> for non-negative arguments.\<close>

definition substr :: "string \<Rightarrow> nat \<Rightarrow> nat \<Rightarrow> string" where
  "substr s start len = take len (drop start s)"

section \<open>Progression tracker (background/service-worker.ts)\<close>

text \<open>
  \<open>generateId\<close>: \<open>now\<close> is the value of \<open>Date.now()\<close> and \<open>rnd36\<close> the string
  \<open>Math.random().toString(36)\<close>. In \<open>createDefaultStats\<close>, \<open>now2\<close> is the later
  \<open>Date.now()\<close> of \<open>lastUpdated\<close>.
\<close>

definition generateId :: "int \<Rightarrow> string \<Rightarrow> string" where
  "generateId now rnd36 = show_int now @ ''-'' @ substr rnd36 2 9"

definition createDefaultStats :: "int \<Rightarrow> string \<Rightarrow> int \<Rightarrow> UserStats" where
  "createDefaultStats now rnd36 now2 =
     \<lparr> userId = generateId now rnd36,
       simulationsSeen = 0,
       simulationsClicked = 0,
       credentialsEntered = 0,
       simulationsDetected = 0,
       averageDetectionTime = 0,
       difficultyProgression =
         \<lparr> currentLevel = Easy, successRate = 0,
           consecutiveSuccesses = 0, consecutiveFailures = 0 \<rparr>,
       riskScore = 50,
       lastUpdated = now2 \<rparr>"

text \<open>
  \<open>updateAverageDetectionTime\<close> reads the detected-count after the caller has
  incremented it. With a count of zero JavaScript divides by zero; the only caller
  reaches it with a count of at least one.
\<close>

definition updateAverageDetectionTime :: "int \<Rightarrow> UserStats \<Rightarrow> UserStats" where
  "updateAverageDetectionTime newTime stats =
     (let current = averageDetectionTime stats;
          count = simulationsDetected stats
      in stats\<lparr> averageDetectionTime :=
                 (current * (of_nat count - 1) + of_int newTime) / of_nat count \<rparr>)"

text \<open>The \<open>switch\<close> on the event type: counter and risk-score update.\<close>

fun applyEventType :: "EventType \<Rightarrow> UserStats \<Rightarrow> UserStats" where
  "applyEventType LINK_CLICKED stats =
     stats\<lparr> simulationsClicked := simulationsClicked stats + 1,
            riskScore := riskScore stats + 25 \<rparr>"
| "applyEventType CREDENTIAL_ENTERED stats =
     stats\<lparr> credentialsEntered := credentialsEntered stats + 1,
            riskScore := riskScore stats + 50 \<rparr>"
| "applyEventType SIMULATION_DETECTED stats =
     stats\<lparr> simulationsDetected := simulationsDetected stats + 1,
            riskScore := max 0 (riskScore stats - 20) \<rparr>"
| "applyEventType REPORTED_PHISHING stats =
     stats\<lparr> simulationsDetected := simulationsDetected stats + 1,
            riskScore := max 0 (riskScore stats - 30) \<rparr>"
| "applyEventType _ stats = stats"

text \<open>JavaScript truthiness of an optional number: present and non-zero.\<close>

fun truthy_num :: "int option \<Rightarrow> bool" where
  "truthy_num None = False"
| "truthy_num (Some v) = (v \<noteq> 0)"

text \<open>
  \<open>handleSimulationEvent\<close> on the \<open>UserStats\<close> record; \<open>now\<close> is \<open>Date.now()\<close>.
  Saving the state, sending the event to the dashboard and recording the training
  example do not touch the record.
\<close>

definition handleSimulationEvent :: "int \<Rightarrow> SimulationEvent \<Rightarrow> UserStats \<Rightarrow> UserStats" where
  "handleSimulationEvent now event stats0 =
     (let stats1 = stats0\<lparr> simulationsSeen := simulationsSeen stats0 + 1 \<rparr>;
          stats2 = applyEventType (eventType event) stats1;
          stats3 = (if eventType event = SIMULATION_DETECTED \<and> truthy_num (shownAt event)
                    then updateAverageDetectionTime
                           (eventTimestamp event - the (shownAt event)) stats2
                    else stats2)
      in stats3\<lparr> lastUpdated := now \<rparr>)"

text \<open>A run of the handler over events, each paired with the clock reading at its arrival.\<close>

fun handleSimulationEvents :: "(int \<times> SimulationEvent) list \<Rightarrow> UserStats \<Rightarrow> UserStats" where
  "handleSimulationEvents [] stats = stats"
| "handleSimulationEvents ((now, event) # rest) stats =
     handleSimulationEvents rest (handleSimulationEvent now event stats)"

text \<open>An event of a given kind with no metadata.\<close>

definition plainEvent :: "EventType \<Rightarrow> int \<Rightarrow> SimulationEvent" where
  "plainEvent k t =
     \<lparr> eventId = ''e'', simulationId = ''s'', eventType = k, eventTimestamp = t,
       eventUrl = ''https://example.com/'', shownAt = None \<rparr>"

text \<open>A detection event shown at \<open>s\<close> and detected at \<open>t\<close>.\<close>

definition detectionEvent :: "int \<Rightarrow> int \<Rightarrow> SimulationEvent" where
  "detectionEvent s t =
     \<lparr> eventId = ''e'', simulationId = ''s'', eventType = SIMULATION_DETECTED,
       eventTimestamp = t, eventUrl = ''https://example.com/'', shownAt = Some s \<rparr>"

text \<open>The spec's delta table and clamp, for comparison with the code.\<close>

fun spec_delta :: "EventType \<Rightarrow> int" where
  "spec_delta CREDENTIAL_ENTERED = 50"
| "spec_delta LINK_CLICKED = 25"
| "spec_delta SIMULATION_DETECTED = - 20"
| "spec_delta REPORTED_PHISHING = - 30"
| "spec_delta _ = 0"

definition spec_clamp :: "int \<Rightarrow> int" where
  "spec_clamp x = min 100 (max 0 x)"

section \<open>User context (shared/types.ts)\<close>

record Activity =
  activityType :: string
  content :: string
  activityTimestamp :: int

record Connection =
  connectionName :: string
  connectionPlatform :: Platform
  relationship :: string
  recentInteraction :: "string option"

text \<open>Optional fields are \<open>None\<close> when the property is undefined.\<close>

record UserContext =
  platform :: Platform
  contextUserId :: "string option"
  username :: "string option"
  email :: "string option"
  organization :: "string option"
  recentActivity :: "Activity list option"
  connections :: "Connection list option"
  contextTimestamp :: int

text \<open>JavaScript truthiness of an optional string: present and non-empty.\<close>

fun truthy_str :: "string option \<Rightarrow> bool" where
  "truthy_str None = False"
| "truthy_str (Some s) = (s \<noteq> [])"

text \<open>\<open>xs && xs.length > n\<close> for an optional array.\<close>

fun longer_than :: "'a list option \<Rightarrow> nat \<Rightarrow> bool" where
  "longer_than None n = False"
| "longer_than (Some xs) n = (length xs > n)"

text \<open>\<open>a || b\<close> on an optional string with a string default.\<close>

fun or_else :: "string option \<Rightarrow> string \<Rightarrow> string" where
  "or_else None d = d"
| "or_else (Some s) d = (if s = [] then d else s)"

section \<open>Simulation engine (background/simulation-engine.ts)\<close>

text \<open>The two mutable fields of \<open>SimulationEngine\<close>.\<close>

record EngineState =
  lastSimulationTime :: int
  simulationCount :: nat

definition initialEngine :: EngineState where
  "initialEngine = \<lparr> lastSimulationTime = 0, simulationCount = 0 \<rparr>"

definition MIN_INTERVAL_MS :: int where
  "MIN_INTERVAL_MS = 300000"

definition calculateContextFactor :: "UserContext \<Rightarrow> rat" where
  "calculateContextFactor context =
     (if truthy_str (username context) then 0.1 else 0)
   + (if truthy_str (email context) then 0.1 else 0)
   + (if truthy_str (organization context) then 0.1 else 0)
   + (if longer_than (connections context) 0 then 0.1 else 0)
   + (if longer_than (recentActivity context) 0 then 0.1 else 0)"

text \<open>
  \<open>shouldTriggerSimulation\<close>: \<open>now\<close> is \<open>Date.now()\<close>, \<open>rnd\<close> the draw
  \<open>Math.random()\<close>. The method reads the engine state and does not change it.
\<close>

definition shouldTriggerSimulation ::
  "int \<Rightarrow> rat \<Rightarrow> Platform \<Rightarrow> UserContext \<Rightarrow> EngineState \<Rightarrow> bool" where
  "shouldTriggerSimulation now rnd plat context st =
     (if now - lastSimulationTime st < MIN_INTERVAL_MS then False
      else if simulationCount st \<ge> 5 then False
      else (let baseChance = 0.2;
                contextFactor = calculateContextFactor context;
                probability = min (baseChance + contextFactor) 0.6
            in rnd < probability))"

text \<open>
  The effect of \<open>generateSimulation\<close> on the engine state, \<open>now\<close> being the
  \<open>Date.now()\<close> of its last assignment. The simulation it returns is built from the
  template tables and further random draws and is not part of this model.
\<close>

definition generateSimulation_state :: "int \<Rightarrow> EngineState \<Rightarrow> EngineState" where
  "generateSimulation_state now st =
     st\<lparr> lastSimulationTime := now, simulationCount := simulationCount st + 1 \<rparr>"

text \<open>A context with no optional field set.\<close>

definition bareContext :: "Platform \<Rightarrow> UserContext" where
  "bareContext p =
     \<lparr> platform = p, contextUserId = None, username = None, email = None,
       organization = None, recentActivity = None, connections = None,
       contextTimestamp = 0 \<rparr>"

section \<open>Red-team scenarios (ai/phishing-generator.ts)\<close>

datatype Position = Modal | Banner | Inline | Notification

datatype Theme = Light | Dark

datatype TriggerKind = TrigTime | TrigAction | TrigUrl | TrigElement | TrigMlPrediction

datatype TriggerOperator = OpEquals | OpContains | OpGt | OpLt | OpRegex

datatype TriggerValue = VString string | VNumber rat | VBoolean bool

record ElementStyling =
  position :: Position
  theme :: Theme
  brandColors :: "string list option"
  logoUrl :: "string option"

record SimulationContent =
  title :: string
  body :: string
  sender :: "string option"
  senderEmail :: "string option"
  urgency :: Urgency
  actionText :: string
  actionUrl :: "string option"
  styling :: ElementStyling

record TriggerCondition =
  triggerKind :: TriggerKind
  triggerValue :: TriggerValue
  triggerOperator :: TriggerOperator

record SimulationMetadata =
  createdAt :: int
  campaignId :: string
  difficulty :: Difficulty
  trainingObjective :: string
  redTeamControlled :: bool

record PhishingSimulation =
  simId :: string
  simType :: PhishingType
  targetPlatform :: Platform
  simContent :: SimulationContent
  triggerConditions :: "TriggerCondition list"
  metadata :: SimulationMetadata

text \<open>\<open>PhishingGenerator.generateId\<close>, with the clock and the random string as arguments.\<close>

definition PhishingGenerator_generateId :: "int \<Rightarrow> string \<Rightarrow> string" where
  "PhishingGenerator_generateId now rnd36 = ''gen-'' @ show_int now @ ''-'' @ substr rnd36 2 9"

definition newline :: char where
  "newline = CHR 0x0A"

text \<open>
  \<open>generateRedTeamScenario\<close>: \<open>now1\<close> and \<open>rnd36\<close> feed the generated id, \<open>now2\<close> is
  the \<open>Date.now()\<close> of \<open>createdAt\<close>. The attack vector is accepted and not used.
\<close>

definition generateRedTeamScenario ::
  "int \<Rightarrow> string \<Rightarrow> int \<Rightarrow> string \<Rightarrow> string \<Rightarrow> string option \<Rightarrow> PhishingSimulation" where
  "generateRedTeamScenario now1 rnd36 now2 targetUser attackVector customPayload =
     \<lparr> simId = PhishingGenerator_generateId now1 rnd36,
       simType = CREDENTIAL_HARVEST,
       targetPlatform = GMAIL,
       simContent =
         \<lparr> title = ''Internal: '' @ or_else customPayload ''Action Required'',
           body = ''Hi '' @ targetUser @ '','' @ [newline, newline]
                  @ or_else customPayload
                      ''Please review the attached document and provide your feedback by EOD.'',
           sender = Some ''IT Security Team'',
           senderEmail = Some ''security@company.local'',
           urgency = UrgHigh,
           actionText = ''View Document'',
           actionUrl = Some ''https://docs.company-secure.local'',
           styling = \<lparr> position = Notification, theme = Light,
                       brandColors = None, logoUrl = None \<rparr> \<rparr>,
       triggerConditions = [],
       metadata =
         \<lparr> createdAt = now2,
           campaignId = ''red-team'',
           difficulty = Expert,
           trainingObjective = ''Red team exercise'',
           redTeamControlled = True \<rparr> \<rparr>"

section \<open>String operations\<close>

text \<open>\<open>s.startsWith(k)\<close>, \<open>s.endsWith(k)\<close> and \<open>s.includes(k)\<close>.\<close>

definition startsWith :: "string \<Rightarrow> string \<Rightarrow> bool" where
  "startsWith s k = (take (length k) s = k)"

definition endsWith :: "string \<Rightarrow> string \<Rightarrow> bool" where
  "endsWith s k = (length k \<le> length s \<and> drop (length s - length k) s = k)"

fun str_includes :: "string \<Rightarrow> string \<Rightarrow> bool" where
  "str_includes [] k = (k = [])"
| "str_includes (c # cs) k = (startsWith (c # cs) k \<or> str_includes cs k)"

text \<open>
  \<open>toLowerCase\<close> on code units below 256: the letters A to Z and the upper-case
  letters of the Latin-1 block (192 to 222 without the multiplication sign 215) move
  up by 32.
\<close>

definition lower_char :: "char \<Rightarrow> char" where
  "lower_char c =
     (let n = (of_char c :: nat)
      in if (65 \<le> n \<and> n \<le> 90) \<or> (192 \<le> n \<and> n \<le> 222 \<and> n \<noteq> 215)
         then char_of (n + 32) else c)"

definition toLowerCase :: "string \<Rightarrow> string" where
  "toLowerCase s = map lower_char s"

text \<open>
  Matching under the \<open>i\<close> flag against a pattern of lower-case ASCII letters: a code
  unit below 256 matches a pattern letter exactly when it is that letter in either case.
\<close>

definition fold_ascii :: "char \<Rightarrow> char" where
  "fold_ascii c =
     (let n = (of_char c :: nat)
      in if 65 \<le> n \<and> n \<le> 90 then char_of (n + 32) else c)"

text \<open>\<open>/word/i.test(s)\<close> for a pattern that is a plain lower-case word.\<close>

definition test_word_i :: "string \<Rightarrow> string \<Rightarrow> bool" where
  "test_word_i word s = str_includes (map fold_ascii s) word"

text \<open>
  \<open>/a.*b/i.test(s)\<close> for plain lower-case words \<open>a\<close> and \<open>b\<close>: an occurrence of
  \<open>a\<close>, then any run of code units other than the line terminators, then \<open>b\<close>.
\<close>

definition line_terminator :: "char \<Rightarrow> bool" where
  "line_terminator c = (c = CHR 0x0A \<or> c = CHR 0x0D)"

fun dots_then :: "string \<Rightarrow> string \<Rightarrow> bool" where
  "dots_then b [] = (b = [])"
| "dots_then b (c # cs) =
     (startsWith (c # cs) b \<or> (\<not> line_terminator c \<and> dots_then b cs))"

fun word_dots_word :: "string \<Rightarrow> string \<Rightarrow> string \<Rightarrow> bool" where
  "word_dots_word a b [] = (a = [] \<and> b = [])"
| "word_dots_word a b (c # cs) =
     ((startsWith (c # cs) a \<and> dots_then b (drop (length a) (c # cs)))
      \<or> word_dots_word a b cs)"

definition test_word_dots_word_i :: "string \<Rightarrow> string \<Rightarrow> string \<Rightarrow> bool" where
  "test_word_dots_word_i a b s = word_dots_word a b (map fold_ascii s)"

section \<open>Context analyzer (ai/context-analyzer.ts)\<close>

datatype RiskProfile = ProfileLow | ProfileMedium | ProfileHigh

record ContextAnalysis =
  riskProfile :: RiskProfile
  primaryPlatform :: Platform
  keyContacts :: "string list"
  topics :: "string list"
  organizations :: "string list"
  suggestedAttackVectors :: "string list"
  personalizationScore :: int

text \<open>
  The argument of \<open>analyze\<close> is an object from platform to context, here the list of its
  entries in property order; an entry may hold \<open>undefined\<close>.
  \<open>Object.values(userContexts).filter(Boolean)\<close> keeps the defined values.
\<close>

fun object_values :: "('k \<times> 'v option) list \<Rightarrow> 'v list" where
  "object_values [] = []"
| "object_values ((k, None) # rest) = object_values rest"
| "object_values ((k, Some v) # rest) = v # object_values rest"

text \<open>Adding to a JavaScript \<open>Set\<close>, kept as the list of its elements in insertion order.\<close>

definition set_add :: "'a list \<Rightarrow> 'a \<Rightarrow> 'a list" where
  "set_add xs x = (if x \<in> set xs then xs else xs @ [x])"

text \<open>A stable sort of scored entries by descending score, as \<open>sort((a, b) => b[1] - a[1])\<close>.\<close>

definition sort_desc :: "('a \<times> nat) list \<Rightarrow> ('a \<times> nat) list" where
  "sort_desc entries = sort_key (\<lambda>e. - int (snd e)) entries"

text \<open>The body of the loop in \<open>calculateRiskProfile\<close>, then the loop from a running score.\<close>

definition contextRiskIncrement :: "UserContext \<Rightarrow> int" where
  "contextRiskIncrement context =
     (if longer_than (recentActivity context) 10 then 10 else 0)
   + (if longer_than (connections context) 50 then 10 else 0)
   + (if platform context = LINKEDIN then 5 else 0)"

fun contextRiskScore :: "int \<Rightarrow> UserContext list \<Rightarrow> int" where
  "contextRiskScore score [] = score"
| "contextRiskScore score (context # rest) =
     contextRiskScore (score + contextRiskIncrement context) rest"

definition calculateRiskProfile :: "UserContext list \<Rightarrow> RiskProfile" where
  "calculateRiskProfile contexts =
     (let score = contextRiskScore 50 contexts
      in if score \<ge> 70 then ProfileHigh
         else if score \<ge> 40 then ProfileMedium
         else ProfileLow)"

text \<open>\<open>context.recentActivity?.length || 0\<close>.\<close>

fun activityCount :: "UserContext \<Rightarrow> nat" where
  "activityCount context = (case recentActivity context of None \<Rightarrow> 0 | Some acts \<Rightarrow> length acts)"

definition add_count :: "(Platform \<times> nat) list \<Rightarrow> Platform \<Rightarrow> nat \<Rightarrow> (Platform \<times> nat) list" where
  "add_count counts p n = map (\<lambda>(q, m). if q = p then (q, m + n) else (q, m)) counts"

text \<open>
  \<open>determinePrimaryPlatform\<close>; the table always has its four entries, so the sorted list
  is never empty.
\<close>

definition determinePrimaryPlatform :: "UserContext list \<Rightarrow> Platform" where
  "determinePrimaryPlatform contexts =
     (let activityCounts = [(GITHUB, 0), (LINKEDIN, 0), (GMAIL, 0), (UNKNOWN, 0)];
          counted = foldl (\<lambda>counts context.
                      add_count counts (platform context) (activityCount context))
                    activityCounts contexts
      in case sort_desc counted of (p, n) # rest \<Rightarrow> p | [] \<Rightarrow> UNKNOWN)"

definition extractKeyContacts :: "UserContext list \<Rightarrow> string list" where
  "extractKeyContacts contexts =
     foldl (\<lambda>contacts context.
              case connections context of
                None \<Rightarrow> contacts
              | Some cs \<Rightarrow> foldl (\<lambda>acc c. set_add acc (connectionName c)) contacts (take 5 cs))
           [] contexts"

definition topicKeywords :: "(string \<times> string list) list" where
  "topicKeywords =
     [(''security'', [''security'', ''phishing'', ''password'', ''auth'', ''2fa'', ''mfa'']),
      (''development'',
         [''code'', ''repo'', ''commit'', ''pull request'', ''merge'', ''bug'', ''feature'']),
      (''business'', [''meeting'', ''project'', ''deadline'', ''client'', ''revenue'', ''sales'']),
      (''cloud'', [''aws'', ''azure'', ''gcp'', ''cloud'', ''serverless'', ''deployment'']),
      (''data'', [''database'', ''analytics'', ''metrics'', ''dashboard'', ''report''])]"

text \<open>\<open>topicScores[topic] = (topicScores[topic] || 0) + 1\<close> on an object kept in key order.\<close>

fun bump_score :: "(string \<times> nat) list \<Rightarrow> string \<Rightarrow> (string \<times> nat) list" where
  "bump_score [] t = [(t, 1)]"
| "bump_score ((k, n) # rest) t =
     (if k = t then (k, n + 1) # rest else (k, n) # bump_score rest t)"

definition scoreActivity :: "(string \<times> nat) list \<Rightarrow> string \<Rightarrow> (string \<times> nat) list" where
  "scoreActivity scores lowered =
     foldl (\<lambda>sc (topic, keywords).
              foldl (\<lambda>sc2 keyword. if str_includes lowered keyword then bump_score sc2 topic else sc2)
                    sc keywords)
           scores topicKeywords"

definition extractTopics :: "UserContext list \<Rightarrow> string list" where
  "extractTopics contexts =
     (let topicScores =
            foldl (\<lambda>sc context.
                     case recentActivity context of
                       None \<Rightarrow> sc
                     | Some acts \<Rightarrow>
                         foldl (\<lambda>sc2 activity. scoreActivity sc2 (toLowerCase (content activity)))
                               sc acts)
                  [] contexts
      in map fst (take 3 (sort_desc topicScores)))"

definition extractOrganizations :: "UserContext list \<Rightarrow> string list" where
  "extractOrganizations contexts =
     foldl (\<lambda>orgs context.
              if truthy_str (organization context)
              then set_add orgs (the (organization context)) else orgs)
           [] contexts"

definition suggestAttackVectors :: "UserContext list \<Rightarrow> string list" where
  "suggestAttackVectors contexts =
     (let platforms = map platform contexts;
          v1 = (if GITHUB \<in> set platforms
                then [''oauth_grant'', ''credential_harvest'', ''session_hijack''] else []);
          v2 = (if LINKEDIN \<in> set platforms
                then [''credential_harvest'', ''connection_impersonation''] else []);
          v3 = (if GMAIL \<in> set platforms
                then [''credential_harvest'', ''oauth_grant'', ''mfa_bypass''] else [])
      in foldl set_add [] (v1 @ v2 @ v3))"

text \<open>\<open>Math.round\<close>: the nearest integer, halves upwards.\<close>

definition Math_round :: "rat \<Rightarrow> int" where
  "Math_round x = \<lfloor>x + 1 / 2\<rfloor>"

definition personalFields :: "UserContext \<Rightarrow> nat" where
  "personalFields context =
     (if truthy_str (username context) then 1 else 0)
   + (if truthy_str (email context) then 1 else 0)
   + (if truthy_str (organization context) then 1 else 0)
   + (if longer_than (connections context) 0 then 1 else 0)"

text \<open>
  \<open>calculatePersonalizationScore\<close> is reached with at least one context only, so
  \<open>maxScore\<close> is positive there.
\<close>

definition calculatePersonalizationScore :: "UserContext list \<Rightarrow> int" where
  "calculatePersonalizationScore contexts =
     (let score = sum_list (map personalFields contexts);
          maxScore = length contexts * 4
      in Math_round ((of_nat score / of_nat maxScore) * 100))"

definition getDefaultAnalysis :: ContextAnalysis where
  "getDefaultAnalysis =
     \<lparr> riskProfile = ProfileMedium,
       primaryPlatform = UNKNOWN,
       keyContacts = [],
       topics = [],
       organizations = [],
       suggestedAttackVectors = [''credential_harvest''],
       personalizationScore = 0 \<rparr>"

definition ContextAnalyzer_analyze :: "(Platform \<times> UserContext option) list \<Rightarrow> ContextAnalysis" where
  "ContextAnalyzer_analyze userContexts =
     (let contexts = object_values userContexts
      in if length contexts = 0 then getDefaultAnalysis
         else \<lparr> riskProfile = calculateRiskProfile contexts,
                primaryPlatform = determinePrimaryPlatform contexts,
                keyContacts = extractKeyContacts contexts,
                topics = extractTopics contexts,
                organizations = extractOrganizations contexts,
                suggestedAttackVectors = suggestAttackVectors contexts,
                personalizationScore = calculatePersonalizationScore contexts \<rparr>)"

section \<open>Credential detector (ai/credential-detector.ts)\<close>

record FormField =
  fieldType :: string
  fieldName :: string
  autocomplete :: "string option"
  isPassword :: bool
  isHidden :: bool

record UserBehavior =
  timeOnPage :: int
  mouseMovements :: int
  keystrokes :: int
  formInteractions :: int

record RiskFactor =
  factorType :: string
  severity :: Severity
  description :: string

record MLPrediction =
  isCredentialEntry :: bool
  confidence :: rat
  riskFactors :: "RiskFactor list"

record DetectionInput =
  formFields :: "FormField list"
  url :: string
  pageTitle :: string
  pageContent :: string
  userBehavior :: UserBehavior
  detectionTimestamp :: int

text \<open>
  The two properties the detector reads from a parsed \<open>URL\<close> object. The platform's
  \<open>URL\<close> constructor is an argument \<open>new_URL\<close> of the functions that call it;
  \<open>None\<close> stands for the constructor throwing.
\<close>

record URL =
  protocol :: string
  hostname :: string

text \<open>A running score with the factors pushed so far; one guarded step of the analysis.\<close>

type_synonym risk = "rat \<times> RiskFactor list"

fun add_risk :: "bool \<Rightarrow> rat \<Rightarrow> RiskFactor list \<Rightarrow> risk \<Rightarrow> risk" where
  "add_risk cond weight pushed (score, factors) =
     (if cond then (score + weight, factors @ pushed) else (score, factors))"

definition factor :: "string \<Rightarrow> Severity \<Rightarrow> string \<Rightarrow> RiskFactor" where
  "factor t sev d = \<lparr> factorType = t, severity = sev, description = d \<rparr>"

definition usernamePatterns :: "string list" where
  "usernamePatterns = [''username'', ''user'', ''email'', ''login'', ''account'']"

definition knownLegitimateDomains :: "string list" where
  "knownLegitimateDomains =
     [''github.com'', ''linkedin.com'', ''google.com'', ''accounts.google.com'',
      ''login.microsoftonline.com'', ''appleid.apple.com'', ''amazon.com'']"

text \<open>The patterns \<open>/signin.*verify/i\<close> and so on, as pairs of words.\<close>

definition suspiciousPatterns :: "(string \<times> string) list" where
  "suspiciousPatterns =
     [(''signin'', ''verify''), (''secure'', ''login''), (''account'', ''update''),
      (''confirm'', ''identity''), (''auth'', ''verify'')]"

definition shorteners :: "string list" where
  "shorteners = [''bit.ly'', ''tinyurl.com'', ''t.co'', ''goo.gl'', ''ow.ly'']"

fun split_on :: "char \<Rightarrow> string \<Rightarrow> string list" where
  "split_on d [] = [[]]"
| "split_on d (c # cs) =
     (if c = d then [] # split_on d cs
      else (case split_on d cs of p # ps \<Rightarrow> (c # p) # ps | [] \<Rightarrow> [[c]]))"

definition is_digit :: "char \<Rightarrow> bool" where
  "is_digit c = (let n = (of_char c :: nat) in 48 \<le> n \<and> n \<le> 57)"

text \<open>The whole-string pattern of four dot-separated runs of one to three digits.\<close>

definition test_ip_address :: "string \<Rightarrow> bool" where
  "test_ip_address s =
     (let parts = split_on (CHR ''.'') s
      in length parts = 4
         \<and> list_all (\<lambda>p. 1 \<le> length p \<and> length p \<le> 3 \<and> list_all is_digit p) parts)"

definition analyzeUrl :: "(string \<Rightarrow> URL option) \<Rightarrow> string \<Rightarrow> risk" where
  "analyzeUrl new_URL u =
     (case new_URL u of
        None \<Rightarrow>
          add_risk True 0.3 [factor ''invalid_url'' SevHigh ''Could not parse URL''] (0, [])
      | Some urlObj \<Rightarrow>
          (let r1 = add_risk (protocol urlObj \<noteq> ''https:'') 0.2
                      [factor ''insecure_protocol'' SevHigh
                         ''Page does not use HTTPS encryption''] (0, []);
               domain = toLowerCase (hostname urlObj);
               isLegitimate = list_ex (\<lambda>d. domain = d \<or> endsWith domain (''.'' @ d))
                                knownLegitimateDomains;
               r2 = add_risk (\<not> isLegitimate) 0.15
                      [factor ''unknown_domain'' SevMedium
                         ''Domain is not in known legitimate list''] r1;
               r3 = add_risk (list_ex (\<lambda>(a, b). test_word_dots_word_i a b u) suspiciousPatterns)
                      0.1
                      [factor ''suspicious_url_pattern'' SevMedium
                         ''URL contains suspicious keywords''] r2;
               r4 = add_risk (test_ip_address domain) 0.2
                      [factor ''ip_address'' SevHigh
                         ''URL uses IP address instead of domain name''] r3;
               r5 = add_risk (list_ex (str_includes domain) shorteners) 0.15
                      [factor ''url_shortener'' SevMedium ''URL uses a link shortener''] r4
           in r5))"

definition urgencyKeywords :: "string list" where
  "urgencyKeywords =
     [''immediately'', ''urgent'', ''asap'', ''right now'', ''limited time'',
      ''account will be'', ''suspended'', ''terminated'', ''24 hours'']"

definition securityKeywords :: "string list" where
  "securityKeywords =
     [''verify'', ''confirm'', ''update'', ''security'', ''unauthorized'',
      ''suspicious'', ''breach'', ''compromised'']"

definition commonTypos :: "string list" where
  "commonTypos = [''acount'', ''verfy'', ''securty'', ''login'', ''signin'']"

definition analyzeContent :: "string \<Rightarrow> risk" where
  "analyzeContent contentText =
     (let lowerContent = toLowerCase contentText;
          urgencyCount = length (filter (str_includes lowerContent) urgencyKeywords);
          r1 = add_risk (urgencyCount > 0) (min (of_nat urgencyCount * 0.05) 0.15)
                 [factor ''urgency_language'' SevMedium
                    ''Page uses urgent or threatening language''] (0, []);
          securityCount = length (filter (str_includes lowerContent) securityKeywords);
          r2 = add_risk (securityCount > 2) (min ((of_nat securityCount - 2) * 0.03) 0.1) [] r1;
          r3 = add_risk (list_ex (str_includes lowerContent) commonTypos) 0.05
                 [factor ''suspicious_spelling'' SevLow
                    ''Possible spelling errors detected''] r2
      in r3)"

definition analyzeBehavior :: "UserBehavior \<Rightarrow> risk" where
  "analyzeBehavior behavior =
     (let r1 = add_risk (timeOnPage behavior < 3000 \<and> keystrokes behavior > 10) 0.05
                 [factor ''rushed_behavior'' SevLow ''Quick form entry detected''] (0, []);
          r2 = add_risk (mouseMovements behavior < 5 \<and> keystrokes behavior > 20) 0.05
                 [factor ''low_interaction'' SevLow ''Unusually low mouse interaction''] r1
      in r2)"

text \<open>\<open>riskScore += r.score; riskFactors.push(...r.factors)\<close>.\<close>

fun merge_risk :: "risk \<Rightarrow> risk \<Rightarrow> risk" where
  "merge_risk (score, factors) (s, fs) = (score + s, factors @ fs)"

definition hasPasswordField :: "DetectionInput \<Rightarrow> bool" where
  "hasPasswordField input = list_ex isPassword (formFields input)"

definition hasUsernameField :: "DetectionInput \<Rightarrow> bool" where
  "hasUsernameField input =
     list_ex (\<lambda>f. fieldType f = ''email''
                 \<or> list_ex (\<lambda>w. test_word_i w (fieldName f)) usernamePatterns)
             (formFields input)"

text \<open>
  The part of \<open>analyze\<close> before the score is normalised: the raw score and every factor
  pushed, in the order of discovery.
\<close>

definition collectRisk :: "(string \<Rightarrow> URL option) \<Rightarrow> DetectionInput \<Rightarrow> risk" where
  "collectRisk new_URL input =
     (let r1 = add_risk (hasPasswordField input) 0.25
                 [factor ''password_field'' SevHigh ''Password field detected''] (0, []);
          r2 = add_risk (hasUsernameField input) 0.1 [] r1;
          r3 = merge_risk r2 (analyzeUrl new_URL (url input));
          r4 = merge_risk r3 (analyzeContent (pageTitle input @ '' '' @ pageContent input));
          r5 = merge_risk r4 (analyzeBehavior (userBehavior input))
      in r5)"

definition CredentialDetector_analyze ::
  "(string \<Rightarrow> URL option) \<Rightarrow> DetectionInput \<Rightarrow> MLPrediction" where
  "CredentialDetector_analyze new_URL input =
     (let collected = collectRisk new_URL input;
          score = min (fst collected) 1.0
      in \<lparr> isCredentialEntry = (hasPasswordField input \<and> score > 0.6),
           confidence = score,
           riskFactors = take 5 (snd collected) \<rparr>)"

text \<open>
  A stand-in for the \<open>URL\<close> constructor on the strings used below:
  \<open>http://host/...\<close> and \<open>https://host/...\<close> with a host of lower-case letters,
  digits, dots and hyphens, for which the constructor returns the scheme followed by a
  colon as protocol and the host unchanged. On every other string the stand-in returns
  \<open>None\<close> and makes no statement about the constructor.
\<close>

definition host_char :: "char \<Rightarrow> bool" where
  "host_char c =
     (let n = (of_char c :: nat)
      in (97 \<le> n \<and> n \<le> 122) \<or> (48 \<le> n \<and> n \<le> 57) \<or> n = 45 \<or> n = 46)"

definition plain_URL :: "string \<Rightarrow> URL option" where
  "plain_URL u =
     (let scheme = takeWhile (\<lambda>c. c \<noteq> CHR '':'') u;
          rest = drop (length scheme) u;
          host = takeWhile (\<lambda>c. c \<noteq> CHR ''/'') (drop 3 rest)
      in if (scheme = ''http'' \<or> scheme = ''https'') \<and> startsWith rest ''://''
            \<and> host \<noteq> [] \<and> list_all host_char host
         then Some \<lparr> protocol = scheme @ '':'', hostname = host \<rparr>
         else None)"

text \<open>The spec's ranking of factors: a stable sort by severity, highest first, cut to five.\<close>

fun spec_rank :: "Severity \<Rightarrow> nat" where
  "spec_rank SevHigh = 0"
| "spec_rank SevMedium = 1"
| "spec_rank SevLow = 2"

definition spec_top5 :: "RiskFactor list \<Rightarrow> RiskFactor list" where
  "spec_top5 fs = take 5 (sort_key (\<lambda>f. spec_rank (severity f)) fs)"

text \<open>Sample inputs.\<close>

definition passwordField :: FormField where
  "passwordField =
     \<lparr> fieldType = ''password'', fieldName = ''pw'', autocomplete = None,
       isPassword = True, isHidden = False \<rparr>"

definition emailField :: FormField where
  "emailField =
     \<lparr> fieldType = ''email'', fieldName = ''mail'', autocomplete = None,
       isPassword = False, isHidden = False \<rparr>"

definition calmBehavior :: UserBehavior where
  "calmBehavior =
     \<lparr> timeOnPage = 60000, mouseMovements = 100, keystrokes = 12, formInteractions = 2 \<rparr>"

definition sampleInput :: "FormField list \<Rightarrow> string \<Rightarrow> string \<Rightarrow> DetectionInput" where
  "sampleInput ffs u pageText =
     \<lparr> formFields = ffs, url = u, pageTitle = ''Sign in'', pageContent = pageText,
       userBehavior = calmBehavior, detectionTimestamp = 0 \<rparr>"

section \<open>Progression tracker: results\<close>

text \<open>The lower bound of the risk score is kept by every event.\<close>

lemma applyEventType_riskScore_nonneg:
  "0 \<le> riskScore stats \<Longrightarrow> 0 \<le> riskScore (applyEventType k stats)"
  by (cases k) simp_all

lemma handleSimulationEvent_riskScore:
  "riskScore (handleSimulationEvent now event stats) =
     riskScore (applyEventType (eventType event) stats)"
  by (cases "eventType event")
     (simp_all add: handleSimulationEvent_def updateAverageDetectionTime_def Let_def)

lemma handleSimulationEvents_riskScore_nonneg:
  "0 \<le> riskScore stats \<Longrightarrow> 0 \<le> riskScore (handleSimulationEvents evs stats)"
proof (induction evs arbitrary: stats)
  case Nil
  then show ?case by simp
next
  case (Cons p evs)
  obtain now event where p: "p = (now, event)" by (cases p)
  have "0 \<le> riskScore (handleSimulationEvent now event stats)"
    using Cons.prems
    by (simp add: handleSimulationEvent_riskScore applyEventType_riskScore_nonneg)
  then show ?case using Cons.IH p by simp
qed

text \<open>
  C1. From the default statistics (risk score 50), two credential-entered events leave
  the risk score at 150: the handler caps the score from below only, so the score
  leaves the interval from 0 to 100.
\<close>

theorem C1_risk_score_exceeds_100:
  "riskScore (handleSimulationEvents
      [(1, plainEvent CREDENTIAL_ENTERED 1), (2, plainEvent CREDENTIAL_ENTERED 2)]
      (createDefaultStats 0 ''0.abcdefghijk'' 0)) = 150"
  by (simp add: handleSimulationEvent_def createDefaultStats_def plainEvent_def Let_def)

text \<open>
  C5. A detection event that carries a (truthy) \<open>shownAt\<close> updates the running average to
  \<open>(avg * (n - 1) + sample) / n\<close>, where \<open>n\<close> is the detected-count after its increment
  and the sample is the event's timestamp minus \<open>shownAt\<close>. From the default statistics,
  detections of 10000 ms and 20000 ms give an average of 15000 ms.
\<close>

theorem C5_running_mean:
  "(eventType event = SIMULATION_DETECTED \<and> shownAt event = Some s \<and> s \<noteq> 0 \<longrightarrow>
      simulationsDetected (handleSimulationEvent now event stats) = simulationsDetected stats + 1
      \<and> averageDetectionTime (handleSimulationEvent now event stats) =
          (averageDetectionTime stats * (of_nat (simulationsDetected stats + 1) - 1)
             + of_int (eventTimestamp event - s))
          / of_nat (simulationsDetected stats + 1))
   \<and> (s1 \<noteq> 0 \<and> s2 \<noteq> 0 \<longrightarrow>
        averageDetectionTime
          (handleSimulationEvents
             [(t1, detectionEvent s1 (s1 + 10000)), (t2, detectionEvent s2 (s2 + 20000))]
             (createDefaultStats t0 rnd36 t0')) = 15000)"
  by (simp add: handleSimulationEvent_def updateAverageDetectionTime_def Let_def
        createDefaultStats_def detectionEvent_def)

text \<open>C5 at a first detection of 10000 ms, and at detections of 10000 ms and 20000 ms.\<close>

theorem C5_running_mean_witness:
  "averageDetectionTime
     (handleSimulationEvent 11000 (detectionEvent 1000 11000)
        (createDefaultStats 0 ''0.abcdefghijk'' 0)) = 10000
   \<and> averageDetectionTime
       (handleSimulationEvents
          [(11000, detectionEvent 1000 11000), (70000, detectionEvent 50000 70000)]
          (createDefaultStats 0 ''0.abcdefghijk'' 0)) = 15000"
  using C5_running_mean [of "detectionEvent 1000 11000" 1000 11000
      "createDefaultStats 0 ''0.abcdefghijk'' 0" 1000 50000 11000 70000 0 "''0.abcdefghijk''" 0]
  by (simp add: detectionEvent_def createDefaultStats_def)

text \<open>
  What one event does to the counters, with no condition on the state: every event
  increments \<open>simulationsSeen\<close>, the counter of its kind is incremented, and the other
  counters, the user id and the difficulty progression are unchanged.
\<close>

lemma handleSimulationEvent_counters:
  "simulationsSeen (handleSimulationEvent now event stats) = simulationsSeen stats + 1
   \<and> simulationsClicked (handleSimulationEvent now event stats) =
       simulationsClicked stats + (if eventType event = LINK_CLICKED then 1 else 0)
   \<and> credentialsEntered (handleSimulationEvent now event stats) =
       credentialsEntered stats + (if eventType event = CREDENTIAL_ENTERED then 1 else 0)
   \<and> simulationsDetected (handleSimulationEvent now event stats) =
       simulationsDetected stats
       + (if eventType event = SIMULATION_DETECTED \<or> eventType event = REPORTED_PHISHING
          then 1 else 0)
   \<and> userId (handleSimulationEvent now event stats) = userId stats
   \<and> difficultyProgression (handleSimulationEvent now event stats) =
       difficultyProgression stats"
  by (cases "eventType event")
     (simp_all add: handleSimulationEvent_def updateAverageDetectionTime_def Let_def)

text \<open>
  What one event does to the risk score: the decrements are capped at 0, the increments
  are not capped at all.
\<close>

lemma handleSimulationEvent_riskScore_delta:
  "riskScore (handleSimulationEvent now event stats) =
     (if eventType event = SIMULATION_DETECTED \<or> eventType event = REPORTED_PHISHING
      then max 0 (riskScore stats + spec_delta (eventType event))
      else riskScore stats + spec_delta (eventType event))"
  by (cases "eventType event") (simp_all add: handleSimulationEvent_riskScore)

text \<open>
  C9. The handler does not do what the statement requires. From the default statistics a
  credential-entered event brings the risk score to 100, and a link-clicked event then
  brings it to 125, where the clamped sum is 100. Both events also increment
  \<open>simulationsSeen\<close>, which is not the counter of either kind.
\<close>

theorem C9_update_not_clamped:
  "riskScore (handleSimulationEvent 1 (plainEvent CREDENTIAL_ENTERED 1)
      (createDefaultStats 0 ''0.abcdefghijk'' 0)) = 100
   \<and> spec_clamp (100 + spec_delta LINK_CLICKED) = 100
   \<and> riskScore (handleSimulationEvent 2 (plainEvent LINK_CLICKED 2)
        (handleSimulationEvent 1 (plainEvent CREDENTIAL_ENTERED 1)
           (createDefaultStats 0 ''0.abcdefghijk'' 0))) = 125
   \<and> simulationsSeen (handleSimulationEvent 1 (plainEvent CREDENTIAL_ENTERED 1)
        (createDefaultStats 0 ''0.abcdefghijk'' 0)) = 1
   \<and> simulationsSeen (handleSimulationEvent 2 (plainEvent LINK_CLICKED 2)
        (handleSimulationEvent 1 (plainEvent CREDENTIAL_ENTERED 1)
           (createDefaultStats 0 ''0.abcdefghijk'' 0))) = 2
   \<and> simulationsClicked (handleSimulationEvent 2 (plainEvent LINK_CLICKED 2)
        (handleSimulationEvent 1 (plainEvent CREDENTIAL_ENTERED 1)
           (createDefaultStats 0 ''0.abcdefghijk'' 0))) = 1
   \<and> credentialsEntered (handleSimulationEvent 2 (plainEvent LINK_CLICKED 2)
        (handleSimulationEvent 1 (plainEvent CREDENTIAL_ENTERED 1)
           (createDefaultStats 0 ''0.abcdefghijk'' 0))) = 1"
  by (simp add: handleSimulationEvent_def createDefaultStats_def plainEvent_def Let_def
        spec_clamp_def)

section \<open>Simulation engine: results\<close>

text \<open>
  C3, as stated, fails: the engine records the time of the last generated simulation,
  not of the last call. Two calls one millisecond apart, with no simulation generated
  in between: the first draws 0.9 and declines, the second draws 0 and fires.
\<close>

theorem C3_two_calls_counterexample:
  "\<not> shouldTriggerSimulation 1000000 0.9 GITHUB (bareContext GITHUB) initialEngine
   \<and> shouldTriggerSimulation 1000001 0 GITHUB (bareContext GITHUB) initialEngine"
  by (simp add: shouldTriggerSimulation_def initialEngine_def MIN_INTERVAL_MS_def
        calculateContextFactor_def bareContext_def Let_def)

text \<open>
  C3, amended. A call made less than 300000 ms after the last generated simulation
  returns false, whatever the platform, the context and the random draw; so does a call
  made when five simulations have been generated.
\<close>

theorem C3_interval_and_cap:
  "(now - lastSimulationTime st < 300000 \<or> 5 \<le> simulationCount st \<longrightarrow>
      \<not> shouldTriggerSimulation now rnd plat context st)
   \<and> (now - t0 < 300000 \<longrightarrow>
      \<not> shouldTriggerSimulation now rnd plat context (generateSimulation_state t0 st))"
  by (simp add: shouldTriggerSimulation_def MIN_INTERVAL_MS_def generateSimulation_state_def)

text \<open>
  The amended C3 one millisecond after a generated simulation, and at a count of five.
\<close>

theorem C3_interval_and_cap_witness:
  "\<not> shouldTriggerSimulation 1000001 0 GITHUB (bareContext GITHUB)
       (generateSimulation_state 1000000 initialEngine)
   \<and> \<not> shouldTriggerSimulation 1000001 0 GITHUB (bareContext GITHUB)
       \<lparr> lastSimulationTime = 0, simulationCount = 5 \<rparr>"
  using C3_interval_and_cap [of 1000001 "\<lparr> lastSimulationTime = 0, simulationCount = 5 \<rparr>"
      0 GITHUB "bareContext GITHUB" 0]
    C3_interval_and_cap [of 1000001 initialEngine 0 GITHUB "bareContext GITHUB" 1000000]
  by simp

section \<open>Red-team scenarios: results\<close>

text \<open>
  C7. The red-team scenario for alice with the payload "Pay this invoice" has the title
  "Internal: Pay this invoice" and the body "Hi alice," followed by an empty line and
  the payload; its difficulty is expert and its red-team flag is set. Two calls with
  the same arguments differ at most in the generated id and the creation time,
  whatever the clock and the random source return.
\<close>

theorem C7_red_team_deterministic:
  "title (simContent (generateRedTeamScenario now1 rnd36 now2
      ''alice'' ''Business Email Compromise'' (Some ''Pay this invoice'')))
     = ''Internal: Pay this invoice''
   \<and> body (simContent (generateRedTeamScenario now1 rnd36 now2
      ''alice'' ''Business Email Compromise'' (Some ''Pay this invoice'')))
     = ''Hi alice,'' @ [newline, newline] @ ''Pay this invoice''
   \<and> difficulty (metadata (generateRedTeamScenario now1 rnd36 now2
      ''alice'' ''Business Email Compromise'' (Some ''Pay this invoice''))) = Expert
   \<and> redTeamControlled (metadata (generateRedTeamScenario now1 rnd36 now2
      ''alice'' ''Business Email Compromise'' (Some ''Pay this invoice'')))
   \<and> simContent (generateRedTeamScenario now1 rnd36 now2 targetUser attackVector customPayload)
     = simContent (generateRedTeamScenario now1' rnd36' now2' targetUser attackVector customPayload)
   \<and> (generateRedTeamScenario now1 rnd36 now2 targetUser attackVector customPayload)
        \<lparr> simId := i,
          metadata := (metadata (generateRedTeamScenario now1 rnd36 now2
                         targetUser attackVector customPayload)) \<lparr> createdAt := c \<rparr> \<rparr>
     = (generateRedTeamScenario now1' rnd36' now2' targetUser attackVector customPayload)
        \<lparr> simId := i,
          metadata := (metadata (generateRedTeamScenario now1' rnd36' now2'
                         targetUser attackVector customPayload)) \<lparr> createdAt := c \<rparr> \<rparr>"
  by (simp add: generateRedTeamScenario_def)

section \<open>Context analyzer: results\<close>

lemma contextRiskIncrement_nonneg: "0 \<le> contextRiskIncrement context"
  by (simp add: contextRiskIncrement_def)

lemma contextRiskScore_ge: "score \<le> contextRiskScore score contexts"
proof (induction contexts arbitrary: score)
  case Nil
  then show ?case by simp
next
  case (Cons c rest)
  have "score \<le> score + contextRiskIncrement c"
    using contextRiskIncrement_nonneg [of c] by simp
  also have "\<dots> \<le> contextRiskScore (score + contextRiskIncrement c) rest"
    by (rule Cons.IH)
  finally show ?case by simp
qed

text \<open>
  C6. The empty mapping yields the default analysis: risk profile medium, primary
  platform unknown, no contacts, topics or organizations, the single suggested vector
  credential_harvest and personalization score 0.
\<close>

theorem C6_empty_mapping_default:
  "ContextAnalyzer_analyze [] =
     \<lparr> riskProfile = ProfileMedium,
       primaryPlatform = UNKNOWN,
       keyContacts = [],
       topics = [],
       organizations = [],
       suggestedAttackVectors = [''credential_harvest''],
       personalizationScore = 0 \<rparr>"
  by (simp add: ContextAnalyzer_analyze_def getDefaultAnalysis_def)

text \<open>
  C10. Whatever the mapping, the analysis never has risk profile low: the score of
  \<open>calculateRiskProfile\<close> starts at 50 and never drops below it, and the default
  analysis is medium.
\<close>

theorem C10_profile_never_low:
  "50 \<le> contextRiskScore 50 (object_values userContexts)
   \<and> (riskProfile (ContextAnalyzer_analyze userContexts) = ProfileMedium
      \<or> riskProfile (ContextAnalyzer_analyze userContexts) = ProfileHigh)"
proof -
  have ge: "50 \<le> contextRiskScore 50 (object_values userContexts)"
    by (rule contextRiskScore_ge)
  then have "calculateRiskProfile (object_values userContexts) = ProfileMedium
      \<or> calculateRiskProfile (object_values userContexts) = ProfileHigh"
    by (simp add: calculateRiskProfile_def Let_def)
  then show ?thesis
    using ge by (auto simp: ContextAnalyzer_analyze_def getDefaultAnalysis_def Let_def)
qed

section \<open>Credential detector: results\<close>

text \<open>Projections of the guarded steps.\<close>

lemma fst_add_risk: "fst (add_risk c w fs r) = fst r + (if c then w else 0)"
  by (cases r) simp

lemma snd_add_risk: "snd (add_risk c w fs r) = snd r @ (if c then fs else [])"
  by (cases r) simp

lemma fst_merge_risk: "fst (merge_risk a b) = fst a + fst b"
  by (cases a; cases b) simp

lemma snd_merge_risk: "snd (merge_risk a b) = snd a @ snd b"
  by (cases a; cases b) simp

text \<open>
  A stable sort leaves a prefix in place when no element of the prefix ranks after an
  element of the rest.
\<close>

lemma sort_key_append_le:
  fixes f :: "'a \<Rightarrow> nat"
  assumes "\<forall>a\<in>set A. \<forall>b\<in>set B. f a \<le> f b"
  shows "sort_key f (A @ B) = sort_key f A @ sort_key f B"
proof (rule properties_for_sort_key)
  show "mset (sort_key f A @ sort_key f B) = mset (A @ B)" by simp
next
  show "sorted (map f (sort_key f A @ sort_key f B))"
    using assms by (auto simp: sorted_append)
next
  fix k
  have "filter (\<lambda>x. f x = f k) (sort_key f A) = filter (\<lambda>x. f x = f k) A"
    and "filter (\<lambda>x. f x = f k) (sort_key f B) = filter (\<lambda>x. f x = f k) B"
    by (rule sort_key_stable)+
  then have "filter (\<lambda>x. f x = f k) (sort_key f A @ sort_key f B)
      = filter (\<lambda>x. f x = f k) (A @ B)" by simp
  moreover have "(\<lambda>x. f k = f x) = (\<lambda>x. f x = f k)" by auto
  ultimately show "filter (\<lambda>x. f k = f x) (sort_key f A @ sort_key f B)
      = filter (\<lambda>x. f k = f x) (A @ B)" by simp
qed

lemma take_sort_key_split:
  fixes f :: "'a \<Rightarrow> nat"
  assumes "\<forall>a\<in>set (take n xs). \<forall>b\<in>set (drop n xs). f a \<le> f b"
  shows "take n (sort_key f xs) = sort_key f (take n xs)"
proof -
  have "sort_key f xs = sort_key f (take n xs @ drop n xs)" by simp
  also have "\<dots> = sort_key f (take n xs) @ sort_key f (drop n xs)"
    using assms by (rule sort_key_append_le)
  finally have eq: "sort_key f xs = sort_key f (take n xs) @ sort_key f (drop n xs)" .
  show ?thesis
  proof (cases "n \<le> length xs")
    case True
    then have "length (sort_key f (take n xs)) = n" by simp
    then show ?thesis using eq by simp
  next
    case False
    then show ?thesis by simp
  qed
qed

lemma sorted_take_drop_le:
  fixes f :: "'a \<Rightarrow> nat"
  assumes "sorted (map f Q)" and "a \<in> set (take k Q)" and "b \<in> set (drop k Q)"
  shows "f a \<le> f b"
proof -
  have "sorted (map f (take k Q) @ map f (drop k Q))"
    using assms(1) by (simp flip: map_append)
  then show ?thesis using assms(2,3) by (auto simp: sorted_append)
qed

lemma prefix_bounded_split:
  fixes f :: "'a \<Rightarrow> nat"
  assumes len: "length P \<le> n"
      and low: "\<forall>a\<in>set P. f a \<le> 1"
      and high: "\<forall>b\<in>set Q. 1 \<le> f b"
      and srt: "sorted (map f Q)"
  shows "\<forall>a\<in>set (take n (P @ Q)). \<forall>b\<in>set (drop n (P @ Q)). f a \<le> f b"
proof (intro ballI)
  fix a b
  assume a: "a \<in> set (take n (P @ Q))" and b: "b \<in> set (drop n (P @ Q))"
  from len have tk: "take n (P @ Q) = P @ take (n - length P) Q"
    and dr: "drop n (P @ Q) = drop (n - length P) Q" by simp_all
  from b dr have bQ: "b \<in> set (drop (n - length P) Q)" by simp
  then have bQ': "b \<in> set Q" by (rule in_set_dropD)
  from a tk consider "a \<in> set P" | "a \<in> set (take (n - length P) Q)" by auto
  then show "f a \<le> f b"
  proof cases
    case 1
    then have "f a \<le> 1" using low by blast
    moreover have "1 \<le> f b" using high bQ' by blast
    ultimately show ?thesis by simp
  next
    case 2
    with srt show ?thesis using bQ by (rule sorted_take_drop_le)
  qed
qed


text \<open>The severities of the factors each analysis step can push.\<close>

lemma spec_rank_le: "spec_rank s \<le> 2"
  by (cases s) simp_all

lemma sorted_map_const:
  fixes g :: "'a \<Rightarrow> nat"
  shows "\<forall>x\<in>set xs. g x = c \<Longrightarrow> sorted (map g xs)"
  by (induction xs) auto

lemma analyzeBehavior_factors:
  "\<forall>f\<in>set (snd (analyzeBehavior behavior)). spec_rank (severity f) = 2"
  by (simp add: analyzeBehavior_def Let_def snd_add_risk factor_def)

lemma analyzeContent_factors:
  "sorted (map (\<lambda>f. spec_rank (severity f)) (snd (analyzeContent c)))
   \<and> (\<forall>f\<in>set (snd (analyzeContent c)). 1 \<le> spec_rank (severity f))"
  by (simp add: analyzeContent_def Let_def snd_add_risk factor_def)

lemma analyzeUrl_factors:
  "length (snd (analyzeUrl new_URL u)) \<le> 5
   \<and> (\<forall>f\<in>set (snd (analyzeUrl new_URL u)). spec_rank (severity f) \<le> 1)
   \<and> (\<forall>f\<in>set (drop 4 (snd (analyzeUrl new_URL u))). spec_rank (severity f) = 1)"
  by (simp add: analyzeUrl_def Let_def snd_add_risk factor_def split: option.split)

lemma collectRisk_factors:
  "snd (collectRisk new_URL input) =
     (if hasPasswordField input
      then [factor ''password_field'' SevHigh ''Password field detected''] else [])
     @ snd (analyzeUrl new_URL (url input))
     @ snd (analyzeContent (pageTitle input @ '' '' @ pageContent input))
     @ snd (analyzeBehavior (userBehavior input))"
  by (simp add: collectRisk_def Let_def snd_add_risk snd_merge_risk)

lemma collectRisk_ranked:
  "\<forall>a\<in>set (take 5 (snd (collectRisk new_URL input))).
     \<forall>b\<in>set (drop 5 (snd (collectRisk new_URL input))).
       spec_rank (severity a) \<le> spec_rank (severity b)"
proof -
  define U where "U = snd (analyzeUrl new_URL (url input))"
  define C where "C = snd (analyzeContent (pageTitle input @ '' '' @ pageContent input))"
  define B where "B = snd (analyzeBehavior (userBehavior input))"
  define W where "W = (if hasPasswordField input
      then [factor ''password_field'' SevHigh ''Password field detected''] else [])"
  define P where "P = W @ take 4 U"
  define Q where "Q = drop 4 U @ C @ B"
  have U: "length U \<le> 5" "\<forall>f\<in>set U. spec_rank (severity f) \<le> 1"
      "\<forall>f\<in>set (drop 4 U). spec_rank (severity f) = 1"
    using analyzeUrl_factors [of new_URL "url input"] by (simp_all add: U_def)
  have C: "sorted (map (\<lambda>f. spec_rank (severity f)) C)"
      "\<forall>f\<in>set C. 1 \<le> spec_rank (severity f)"
    using analyzeContent_factors by (simp_all add: C_def)
  have B: "\<forall>f\<in>set B. spec_rank (severity f) = 2"
    using analyzeBehavior_factors by (simp add: B_def)
  have W: "length W \<le> 1" "\<forall>f\<in>set W. spec_rank (severity f) \<le> 1"
    by (simp_all add: W_def factor_def)
  have eq: "snd (collectRisk new_URL input) = P @ Q"
    by (simp add: collectRisk_factors P_def Q_def U_def C_def B_def W_def)
  have len: "length P \<le> 5" using W(1) by (simp add: P_def)
  have low: "\<forall>a\<in>set P. spec_rank (severity a) \<le> 1"
    using W(2) U(2) by (auto simp: P_def dest: in_set_takeD)
  have high: "\<forall>b\<in>set Q. 1 \<le> spec_rank (severity b)"
    using U(3) C(2) B by (auto simp: Q_def)
  have "sorted (map (\<lambda>f. spec_rank (severity f)) B)"
    using B by (rule sorted_map_const)
  moreover have "sorted (map (\<lambda>f. spec_rank (severity f)) (drop 4 U))"
    using U(3) by (rule sorted_map_const)
  ultimately have srt: "sorted (map (\<lambda>f. spec_rank (severity f)) Q)"
    using U(3) C B by (auto simp: Q_def sorted_append spec_rank_le)
  show ?thesis
    unfolding eq using len low high srt by (rule prefix_bounded_split)
qed

text \<open>Substring search, and the scores each analysis step contributes.\<close>

lemma str_includes_iff: "str_includes s k \<longleftrightarrow> (\<exists>p q. s = p @ k @ q)"
proof (induction s)
  case Nil
  then show ?case by simp
next
  case (Cons c cs)
  show ?case
  proof
    assume "str_includes (c # cs) k"
    then consider "startsWith (c # cs) k" | "str_includes cs k" by auto
    then show "\<exists>p q. c # cs = p @ k @ q"
    proof cases
      case 1
      then have "c # cs = [] @ k @ drop (length k) (c # cs)"
        unfolding startsWith_def by (metis append_Nil append_take_drop_id)
      then show ?thesis by blast
    next
      case 2
      then obtain p q where "cs = p @ k @ q" using Cons.IH by blast
      then have "c # cs = (c # p) @ k @ q" by simp
      then show ?thesis by blast
    qed
  next
    assume "\<exists>p q. c # cs = p @ k @ q"
    then obtain p q where pq: "c # cs = p @ k @ q" by blast
    show "str_includes (c # cs) k"
    proof (cases "p = []")
      case True
      then have "startsWith (c # cs) k" using pq by (simp add: startsWith_def)
      then show ?thesis by simp
    next
      case False
      then obtain p' where "p = c # p'" using pq by (cases p) auto
      then have "cs = p' @ k @ q" using pq by simp
      then have "str_includes cs k" using Cons.IH by blast
      then show ?thesis by simp
    qed
  qed
qed

lemma str_includes_append: "str_includes b k \<Longrightarrow> str_includes (a @ b) k"
proof -
  assume "str_includes b k"
  then obtain p q where "b = p @ k @ q" using str_includes_iff by blast
  then have "a @ b = (a @ p) @ k @ q" by simp
  then show ?thesis using str_includes_iff by blast
qed

lemma filter_nonempty:
  "list_ex P xs \<Longrightarrow> (\<And>x. P x \<Longrightarrow> P' x) \<Longrightarrow> 0 < length (filter P' xs)"
  by (induction xs) auto

lemma urgency_found:
  assumes "list_ex (str_includes (toLowerCase (pageContent input))) urgencyKeywords"
  shows "0 < length (filter
            (str_includes (toLowerCase (pageTitle input @ '' '' @ pageContent input)))
            urgencyKeywords)"
proof (rule filter_nonempty [OF assms])
  fix k
  assume "str_includes (toLowerCase (pageContent input)) k"
  then have "str_includes (toLowerCase (pageTitle input @ '' '') @ toLowerCase (pageContent input)) k"
    by (rule str_includes_append)
  then show "str_includes (toLowerCase (pageTitle input @ '' '' @ pageContent input)) k"
    by (simp add: toLowerCase_def)
qed

lemma analyzeBehavior_score: "0 \<le> fst (analyzeBehavior behavior)"
  by (simp add: analyzeBehavior_def Let_def fst_add_risk)

lemma urgency_weight:
  "0 < n \<Longrightarrow> 0.05 \<le> min (of_nat n * 0.05) (0.15 :: rat)"
proof -
  assume "0 < n"
  then have "(1 :: rat) \<le> of_nat n" by simp
  then have "(0.05 :: rat) \<le> of_nat n * 0.05" by simp
  then show ?thesis by simp
qed

lemma security_weight:
  "2 < m \<Longrightarrow> 0 \<le> min ((of_nat m - 2) * 0.03) (0.1 :: rat)"
proof -
  assume "2 < m"
  then have "(2 :: rat) \<le> of_nat m" by simp
  then have "(0 :: rat) \<le> (of_nat m - 2) * 0.03" by simp
  then show ?thesis by simp
qed

lemma analyzeContent_score:
  "0 \<le> fst (analyzeContent c)"
  "0 < length (filter (str_includes (toLowerCase c)) urgencyKeywords)
     \<Longrightarrow> 0.05 \<le> fst (analyzeContent c)"
proof -
  let ?n = "length (filter (str_includes (toLowerCase c)) urgencyKeywords)"
  let ?m = "length (filter (str_includes (toLowerCase c)) securityKeywords)"
  let ?a = "(if 0 < ?n then min (of_nat ?n * 0.05) 0.15 else 0) :: rat"
  let ?b = "(if 2 < ?m then min ((of_nat ?m - 2) * 0.03) 0.1 else 0) :: rat"
  let ?t = "(if list_ex (str_includes (toLowerCase c)) commonTypos then 0.05 else 0) :: rat"
  have eq: "fst (analyzeContent c) = ?a + ?b + ?t"
    by (simp add: analyzeContent_def Let_def fst_add_risk)
  have a: "0 \<le> ?a" by simp
  have b: "0 \<le> ?b" using security_weight [of ?m] by simp
  have t: "0 \<le> ?t" by simp
  show "0 \<le> fst (analyzeContent c)" unfolding eq using a b t by linarith
  show "0.05 \<le> fst (analyzeContent c)" if "0 < ?n"
  proof -
    from that have "?a = min (of_nat ?n * 0.05) 0.15" by (rule if_P)
    with urgency_weight [OF that] have "0.05 \<le> ?a" by (simp only:)
    then show ?thesis unfolding eq using b t by linarith
  qed
qed

lemma analyzeUrl_insecure:
  assumes "new_URL u = Some urlObj" and "protocol urlObj \<noteq> ''https:''"
  shows "0.2 \<le> fst (analyzeUrl new_URL u)"
    and "hd (snd (analyzeUrl new_URL u)) =
           factor ''insecure_protocol'' SevHigh ''Page does not use HTTPS encryption''"
    and "snd (analyzeUrl new_URL u) \<noteq> []"
    and "\<not> list_ex (\<lambda>d. toLowerCase (hostname urlObj) = d
                \<or> endsWith (toLowerCase (hostname urlObj)) (''.'' @ d))
            knownLegitimateDomains
         \<Longrightarrow> 0.35 \<le> fst (analyzeUrl new_URL u)"
  using assms by (simp_all add: analyzeUrl_def Let_def fst_add_risk snd_add_risk)

lemma collectRisk_score:
  "fst (collectRisk new_URL input) =
     (if hasPasswordField input then 0.25 else 0)
     + (if hasUsernameField input then 0.1 else 0)
     + fst (analyzeUrl new_URL (url input))
     + fst (analyzeContent (pageTitle input @ '' '' @ pageContent input))
     + fst (analyzeBehavior (userBehavior input))"
  by (simp add: collectRisk_def Let_def fst_add_risk fst_merge_risk)

text \<open>
  C2, as stated, fails: with a password field, an e-mail field and an unknown host over
  plain HTTP the verdict is true at confidence 0.7, which does not exceed 0.75.
\<close>

theorem C2_threshold_counterexample:
  "isCredentialEntry (CredentialDetector_analyze plain_URL
      (sampleInput [passwordField, emailField] ''http://example.org/'' ''hello''))
   \<and> confidence (CredentialDetector_analyze plain_URL
      (sampleInput [passwordField, emailField] ''http://example.org/'' ''hello'')) = 0.7
   \<and> \<not> confidence (CredentialDetector_analyze plain_URL
      (sampleInput [passwordField, emailField] ''http://example.org/'' ''hello'')) > 0.75"
  by code_simp

text \<open>
  C2, amended. A true verdict means that some form field is password-capable and that
  the confidence exceeds 0.6, the threshold written in \<open>analyze\<close>; the confidence
  never exceeds 1.
\<close>

theorem C2_verdict_threshold:
  assumes "isCredentialEntry (CredentialDetector_analyze new_URL input)"
  shows "list_ex isPassword (formFields input)
     \<and> confidence (CredentialDetector_analyze new_URL input) > 0.6
     \<and> confidence (CredentialDetector_analyze new_URL input) \<le> 1"
  using assms
  by (auto simp add: CredentialDetector_analyze_def Let_def hasPasswordField_def min_def
        split: if_splits)

text \<open>The amended C2 at the input of its counterexample.\<close>

theorem C2_verdict_threshold_witness:
  "list_ex isPassword [passwordField, emailField]
   \<and> confidence (CredentialDetector_analyze plain_URL
      (sampleInput [passwordField, emailField] ''http://example.org/'' ''hello'')) > 0.6"
proof -
  have "isCredentialEntry (CredentialDetector_analyze plain_URL
      (sampleInput [passwordField, emailField] ''http://example.org/'' ''hello''))"
    by code_simp
  from C2_verdict_threshold [OF this] show ?thesis by (simp add: sampleInput_def)
qed

text \<open>
  C4, as stated, fails: for a page at \<open>http://10.0.0.1/secure-login\<close> with a password
  field and urgent text six factors are found, and the returned list has the high-severity
  \<open>ip_address\<close> factor after two medium ones, where the spec's ranking puts it third.
\<close>

theorem C4_order_counterexample:
  "length (snd (collectRisk plain_URL
      (sampleInput [passwordField] ''http://10.0.0.1/secure-login'' ''urgent''))) > 5
   \<and> riskFactors (CredentialDetector_analyze plain_URL
        (sampleInput [passwordField] ''http://10.0.0.1/secure-login'' ''urgent''))
     \<noteq> spec_top5 (snd (collectRisk plain_URL
        (sampleInput [passwordField] ''http://10.0.0.1/secure-login'' ''urgent'')))"
  by code_simp

text \<open>
  C4, amended. The returned factors are the first five in discovery order; they are not
  sorted by severity. They are nevertheless the same five factors as the spec's ranking
  selects: sorting the returned list by severity gives exactly the spec's list.
\<close>

theorem C4_first_five:
  "riskFactors (CredentialDetector_analyze new_URL input)
     = take 5 (snd (collectRisk new_URL input))
   \<and> spec_top5 (snd (collectRisk new_URL input))
     = sort_key (\<lambda>f. spec_rank (severity f))
         (riskFactors (CredentialDetector_analyze new_URL input))
   \<and> mset (riskFactors (CredentialDetector_analyze new_URL input))
     = mset (spec_top5 (snd (collectRisk new_URL input)))"
proof -
  have a: "riskFactors (CredentialDetector_analyze new_URL input)
      = take 5 (snd (collectRisk new_URL input))"
    by (simp add: CredentialDetector_analyze_def Let_def)
  have b: "spec_top5 (snd (collectRisk new_URL input))
      = sort_key (\<lambda>f. spec_rank (severity f)) (take 5 (snd (collectRisk new_URL input)))"
    unfolding spec_top5_def using collectRisk_ranked by (rule take_sort_key_split)
  show ?thesis using a b by simp
qed

text \<open>
  C8, as stated, fails: a password field, the page \<open>http://github.com/login\<close> (plain
  HTTP, allow-listed host) and the word "urgent" in the page text give confidence 0.5.
\<close>

theorem C8_confidence_counterexample:
  "list_ex isPassword
     (formFields (sampleInput [passwordField] ''http://github.com/login'' ''urgent''))
   \<and> map_option protocol
       (plain_URL (url (sampleInput [passwordField] ''http://github.com/login'' ''urgent'')))
     = Some ''http:''
   \<and> str_includes
       (toLowerCase
          (pageContent (sampleInput [passwordField] ''http://github.com/login'' ''urgent'')))
       ''urgent''
   \<and> confidence (CredentialDetector_analyze plain_URL
       (sampleInput [passwordField] ''http://github.com/login'' ''urgent'')) = 0.5
   \<and> \<not> 0.6 < confidence (CredentialDetector_analyze plain_URL
       (sampleInput [passwordField] ''http://github.com/login'' ''urgent''))"
  by code_simp

text \<open>
  C8, amended. With a password-capable field, a URL that parses with a protocol other
  than \<open>https:\<close> and an urgency keyword in the lower-cased page text, the confidence is
  at least 0.5, and above 0.6 when the host is not allow-listed; the factor list starts
  with the \<open>password_field\<close> and \<open>insecure_protocol\<close> factors.
\<close>

theorem C8_insecure_password_urgency:
  assumes pw: "list_ex isPassword (formFields input)"
      and parsed: "new_URL (url input) = Some urlObj"
      and insecure: "protocol urlObj \<noteq> ''https:''"
      and urgent: "list_ex (str_includes (toLowerCase (pageContent input))) urgencyKeywords"
  shows "0.5 \<le> confidence (CredentialDetector_analyze new_URL input)
     \<and> (\<not> list_ex (\<lambda>d. toLowerCase (hostname urlObj) = d
                \<or> endsWith (toLowerCase (hostname urlObj)) (''.'' @ d))
            knownLegitimateDomains
        \<longrightarrow> 0.6 < confidence (CredentialDetector_analyze new_URL input))
     \<and> take 2 (riskFactors (CredentialDetector_analyze new_URL input)) =
         [factor ''password_field'' SevHigh ''Password field detected'',
          factor ''insecure_protocol'' SevHigh ''Page does not use HTTPS encryption'']"
proof -
  let ?U = "analyzeUrl new_URL (url input)"
  let ?C = "analyzeContent (pageTitle input @ '' '' @ pageContent input)"
  let ?B = "analyzeBehavior (userBehavior input)"
  have hp: "hasPasswordField input" using pw by (simp add: hasPasswordField_def)
  have u: "0.2 \<le> fst ?U"
    using analyzeUrl_insecure(1) [of new_URL "url input" urlObj, OF parsed insecure] .
  have c: "0.05 \<le> fst ?C" using urgency_found [OF urgent] by (rule analyzeContent_score(2))
  have b: "0 \<le> fst ?B" by (rule analyzeBehavior_score)
  have raw: "0.5 \<le> fst (collectRisk new_URL input)"
    using hp u c b by (simp add: collectRisk_score)
  then have conf: "0.5 \<le> confidence (CredentialDetector_analyze new_URL input)"
    by (simp add: CredentialDetector_analyze_def Let_def)
  have strict: "0.6 < confidence (CredentialDetector_analyze new_URL input)"
    if "\<not> list_ex (\<lambda>d. toLowerCase (hostname urlObj) = d
                \<or> endsWith (toLowerCase (hostname urlObj)) (''.'' @ d))
            knownLegitimateDomains"
  proof -
    have "0.35 \<le> fst ?U"
      using analyzeUrl_insecure(4) [of new_URL "url input" urlObj, OF parsed insecure that] .
    then have "0.65 \<le> fst (collectRisk new_URL input)"
      using hp c b by (simp add: collectRisk_score)
    then show ?thesis by (simp add: CredentialDetector_analyze_def Let_def)
  qed
  obtain rest where "snd ?U = factor ''insecure_protocol'' SevHigh
      ''Page does not use HTTPS encryption'' # rest"
    using analyzeUrl_insecure(2,3) [of new_URL "url input" urlObj, OF parsed insecure]
    by (cases "snd ?U") auto
  then have "take 2 (riskFactors (CredentialDetector_analyze new_URL input)) =
         [factor ''password_field'' SevHigh ''Password field detected'',
          factor ''insecure_protocol'' SevHigh ''Page does not use HTTPS encryption'']"
    using hp by (simp add: CredentialDetector_analyze_def Let_def collectRisk_factors)
  then show ?thesis using conf strict by blast
qed

text \<open>The amended C8 at a page on an unknown host over plain HTTP.\<close>

theorem C8_insecure_password_urgency_witness:
  "0.6 < confidence (CredentialDetector_analyze plain_URL
      (sampleInput [passwordField] ''http://example.org/'' ''urgent''))
   \<and> take 2 (riskFactors (CredentialDetector_analyze plain_URL
      (sampleInput [passwordField] ''http://example.org/'' ''urgent''))) =
         [factor ''password_field'' SevHigh ''Password field detected'',
          factor ''insecure_protocol'' SevHigh ''Page does not use HTTPS encryption'']"
proof -
  let ?i = "sampleInput [passwordField] ''http://example.org/'' ''urgent''"
  let ?u = "\<lparr> protocol = ''http:'', hostname = ''example.org'' \<rparr>"
  have 1: "list_ex isPassword (formFields ?i)" by code_simp
  have 2: "plain_URL (url ?i) = Some ?u" by code_simp
  have 3: "protocol ?u \<noteq> ''https:''" by simp
  have 4: "list_ex (str_includes (toLowerCase (pageContent ?i))) urgencyKeywords" by code_simp
  have 5: "\<not> list_ex (\<lambda>d. toLowerCase (hostname ?u) = d
                \<or> endsWith (toLowerCase (hostname ?u)) (''.'' @ d))
            knownLegitimateDomains" by code_simp
  from C8_insecure_password_urgency [of ?i plain_URL ?u, OF 1 2 3 4] 5 show ?thesis by blast
qed


end
